theory Spec2Isabelle
  imports Complex_Main "HOL-Library.AList"
begin

section \<open>Vectors\<close>

text \<open>
  \<^verbatim>\<open>FreeCAD.Vector\<close>: three coordinates. The coordinates are exact reals here; the rounding
  of the double-precision coordinates of FreeCAD is not part of this development. The
  methods of this file never change a vector in place (\<^verbatim>\<open>+\<close>, \<^verbatim>\<open>sub\<close> and \<^verbatim>\<open>negative\<close> build
  new vectors), so vectors are values.
\<close>

datatype vec = Vector (vx: real) (vy: real) (vz: real)

definition V0 :: vec where
  "V0 = Vector 0 0 0"

definition VX :: vec where
  "VX = Vector 1 0 0"

definition VY :: vec where
  "VY = Vector 0 1 0"

definition VZ :: vec where
  "VZ = Vector 0 0 1"


fun sub :: "vec \<Rightarrow> vec \<Rightarrow> vec" where
  "sub (Vector a b c) (Vector a' b' c') = Vector (a - a') (b - b') (c - c')"


fun multiply :: "vec \<Rightarrow> real \<Rightarrow> vec" where
  "multiply (Vector a b c) k = Vector (a * k) (b * k) (c * k)"

definition Length :: "vec \<Rightarrow> real" where
  "Length u = sqrt ((vx u)\<^sup>2 + (vy u)\<^sup>2 + (vz u)\<^sup>2)"

section \<open>Exceptions and dictionaries\<close>

text \<open>
  The exceptions that the methods of \<^verbatim>\<open>Obj3D\<close> can raise or catch. A method returns
  \<open>Inl e\<close> when the exception \<open>e\<close> leaves it, and \<open>Inr v\<close> when it returns \<open>v\<close>.
\<close>

datatype pyerr = KeyError | AttributeError | TypeError

text \<open>
  A dictionary is an association list in insertion order: \<open>map_of d k\<close> is \<^verbatim>\<open>d[k]\<close>
  (\<open>None\<close> for a \<^verbatim>\<open>KeyError\<close>) and \<open>AList.update k v d\<close> is \<^verbatim>\<open>d[k] = v\<close>, which keeps
  the place of a key that is already there.
\<close>

type_synonym imap = "(int \<times> vec) list"

text \<open>
  The dictionaries \<^verbatim>\<open>d_o\<close>, \<^verbatim>\<open>w_o\<close>, \<^verbatim>\<open>h_o\<close> are mutable objects that several holders can
  refer to, so they live in a store and are named by their addresses.
\<close>

type_synonym addr = nat

record heap =
  cells :: "addr \<Rightarrow> imap"
  nxt :: addr

definition new_dict :: "heap \<Rightarrow> addr \<times> heap" where
  "new_dict h = (nxt h, h\<lparr>cells := (cells h)(nxt h := []), nxt := Suc (nxt h)\<rparr>)"

definition getitem :: "heap \<Rightarrow> addr \<Rightarrow> int \<Rightarrow> vec option" where
  "getitem h a k = map_of (cells h a) k"

definition setitem :: "heap \<Rightarrow> addr \<Rightarrow> int \<Rightarrow> vec \<Rightarrow> heap" where
  "setitem h a k v = h\<lparr>cells := (cells h)(a := AList.update k v (cells h a))\<rparr>"

section \<open>Obj3D\<close>

type_synonym pyname = "string option"

text \<open>
  The value stored for a child by \<^verbatim>\<open>add_child\<close>:
  \<^verbatim>\<open>dict(child_d_o = child.d_o, child_w_o = child.w_o, child_h_o = child.h_o, child_shp = child.shp)\<close>.
  The three maps are stored as the references they are; a shape is an opaque value of the
  geometry kernel.
\<close>

record 'shp child_rec =
  child_d_o :: addr
  child_w_o :: addr
  child_h_o :: addr
  child_shp :: 'shp

text \<open>
  The attributes of an \<^verbatim>\<open>Obj3D\<close>. Those that \<^verbatim>\<open>Obj3D.__init__\<close> always sets are plain
  fields. Those that only a subclass sets (or \<^verbatim>\<open>__init__\<close> only on one branch) are
  optional: \<open>None\<close> is an attribute that does not exist, whose read raises
  \<^verbatim>\<open>AttributeError\<close>. The attribute \<^verbatim>\<open>doc\<close> (the active document of the host) is left out.
\<close>

record 'shp obj3d =
  d_o :: addr
  w_o :: addr
  h_o :: addr
  dict_child :: "(pyname \<times> 'shp child_rec) list"
  dict_child_sum :: "(pyname \<times> 'shp child_rec) list"
  dict_child_res :: "(pyname \<times> 'shp child_rec) list"
  name :: pyname
  axis_h :: vec
  axis_d :: vec
  axis_w :: vec
  pos_o_adjust :: vec
  pos_h :: "int option"
  pos_d :: "int option"
  pos_w :: "int option"
  d0_cen :: "int option"
  w0_cen :: "int option"
  h0_cen :: "int option"
  pos :: "vec option"
  pos_o :: "vec option"
  shp :: "'shp option"

subsection \<open>get_o_to_d, get_o_to_w, get_o_to_h\<close>




subsection \<open>set_pos_o\<close>



subsection \<open>The constructor\<close>

text \<open>
  \<^verbatim>\<open>DraftVecUtils.scaleTo\<close> belongs to FreeCAD, so \<^verbatim>\<open>Obj3D.__init__\<close> takes it as the
  parameter \<open>scaleTo'\<close>: a function of a vector and a length that returns a vector or
  raises. The three blocks of \<^verbatim>\<open>__init__\<close> that treat one axis each come first, in the
  order of the source (height, depth, width).
\<close>

definition init_axis_h ::
  "(vec \<Rightarrow> real \<Rightarrow> pyerr + vec) \<Rightarrow> heap \<times> 'shp obj3d \<Rightarrow> vec option \<Rightarrow> pyerr + heap \<times> 'shp obj3d" where
  "init_axis_h scaleTo' hs axis =
     (case hs of (h, self) \<Rightarrow>
        (case axis of
           Some a \<Rightarrow> (case scaleTo' a 1 of Inl e \<Rightarrow> Inl e | Inr u \<Rightarrow> Inr (h, self\<lparr>axis_h := u\<rparr>))
         | None \<Rightarrow> Inr (setitem h (h_o self) 0 V0, self\<lparr>pos_h := Some 0, axis_h := V0\<rparr>)))"

definition init_axis_d ::
  "(vec \<Rightarrow> real \<Rightarrow> pyerr + vec) \<Rightarrow> heap \<times> 'shp obj3d \<Rightarrow> vec option \<Rightarrow> pyerr + heap \<times> 'shp obj3d" where
  "init_axis_d scaleTo' hs axis =
     (case hs of (h, self) \<Rightarrow>
        (case axis of
           Some a \<Rightarrow> (case scaleTo' a 1 of Inl e \<Rightarrow> Inl e | Inr u \<Rightarrow> Inr (h, self\<lparr>axis_d := u\<rparr>))
         | None \<Rightarrow> Inr (setitem h (d_o self) 0 V0, self\<lparr>pos_d := Some 0, axis_d := V0\<rparr>)))"

definition init_axis_w ::
  "(vec \<Rightarrow> real \<Rightarrow> pyerr + vec) \<Rightarrow> heap \<times> 'shp obj3d \<Rightarrow> vec option \<Rightarrow> pyerr + heap \<times> 'shp obj3d" where
  "init_axis_w scaleTo' hs axis =
     (case hs of (h, self) \<Rightarrow>
        (case axis of
           Some a \<Rightarrow> (case scaleTo' a 1 of Inl e \<Rightarrow> Inl e | Inr u \<Rightarrow> Inr (h, self\<lparr>axis_w := u\<rparr>))
         | None \<Rightarrow> Inr (setitem h (w_o self) 0 V0, self\<lparr>pos_w := Some 0, axis_w := V0\<rparr>)))"

text \<open>
  \<open>self\<close> is the object as the caller hands it over: a subclass may have set attributes
  (\<^verbatim>\<open>shp\<close>, for one) before it calls \<^verbatim>\<open>Obj3D.__init__\<close>, and those that the constructor does
  not assign stay as they are.
\<close>

definition Obj3D_init ::
  "(vec \<Rightarrow> real \<Rightarrow> pyerr + vec) \<Rightarrow> heap \<Rightarrow> 'shp obj3d \<Rightarrow>
     vec option \<Rightarrow> vec option \<Rightarrow> vec option \<Rightarrow> pyname \<Rightarrow> pyerr + heap \<times> 'shp obj3d" where
  "Obj3D_init scaleTo' h self axis_d' axis_w' axis_h' name' =
     (case new_dict h of (a_d, h1) \<Rightarrow>
      case new_dict h1 of (a_w, h2) \<Rightarrow>
      case new_dict h2 of (a_h, h3) \<Rightarrow>
        (let self1 = self\<lparr>d_o := a_d, w_o := a_w, h_o := a_h,
                          dict_child := [], dict_child_sum := [], dict_child_res := [],
                          name := name'\<rparr>
         in case init_axis_h scaleTo' (h3, self1) axis_h' of Inl e \<Rightarrow> Inl e | Inr hs1 \<Rightarrow>
            case init_axis_d scaleTo' hs1 axis_d' of Inl e \<Rightarrow> Inl e | Inr hs2 \<Rightarrow>
            case init_axis_w scaleTo' hs2 axis_w' of Inl e \<Rightarrow> Inl e | Inr (h4, self4) \<Rightarrow>
              Inr (h4, self4\<lparr>pos_o_adjust := V0\<rparr>)))"

text \<open>
  Modelled from the spec: \<^verbatim>\<open>DraftVecUtils.scaleTo\<close> is a function of FreeCAD and not in the
  repository. The specification describes it as the normalisation of an axis to a unit
  vector that does not fail on a zero vector but falls back to a fixed vector; the
  fallback taken here is the zero vector itself.
\<close>

definition scaleTo :: "vec \<Rightarrow> real \<Rightarrow> pyerr + vec" where
  "scaleTo u l = (if Length u = 0 then Inr u else Inr (multiply u (l / Length u)))"

subsection \<open>add_child\<close>

text \<open>
  The \<^verbatim>\<open>dict(...)\<close> of the first statement reads \<^verbatim>\<open>child.shp\<close>; a child without that
  attribute raises before anything is stored.
\<close>

definition add_child ::
  "'shp obj3d \<Rightarrow> 'shp obj3d \<Rightarrow> int \<Rightarrow> pyname \<Rightarrow> pyerr + 'shp obj3d" where
  "add_child self child child_sum child_name =
     (case shp child of
        None \<Rightarrow> Inl AttributeError
      | Some s \<Rightarrow>
          (let r = \<lparr>child_d_o = d_o child, child_w_o = w_o child, child_h_o = h_o child,
                    child_shp = s\<rparr>;
               self1 = self\<lparr>dict_child := AList.update child_name r (dict_child self)\<rparr>
           in if child_sum = 1
              then Inr (self1\<lparr>dict_child_sum := AList.update child_name r (dict_child_sum self1)\<rparr>)
              else Inr (self1\<lparr>dict_child_res := AList.update child_name r (dict_child_res self1)\<rparr>)))"

text \<open>A sequence of \<^verbatim>\<open>add_child\<close> calls on one parent; an exception ends it.\<close>

fun add_children ::
  "'shp obj3d \<Rightarrow> ('shp obj3d \<times> int \<times> pyname) list \<Rightarrow> pyerr + 'shp obj3d" where
  "add_children self [] = Inr self"
| "add_children self ((child, child_sum, child_name) # rest) =
     (case add_child self child child_sum child_name of
        Inl e \<Rightarrow> Inl e
      | Inr self' \<Rightarrow> add_children self' rest)"

subsection \<open>make_parent\<close>

text \<open>
  The two \<^verbatim>\<open>for\<close> loops: for each key of a sub-table, in its order, the shape that the
  full table \<^verbatim>\<open>dict_child\<close> holds under that key.
\<close>

fun shp_list ::
  "(pyname \<times> 'shp child_rec) list \<Rightarrow> pyname list \<Rightarrow> pyerr + 'shp list" where
  "shp_list dc [] = Inr []"
| "shp_list dc (key # keys) =
     (case map_of dc key of
        None \<Rightarrow> Inl KeyError
      | Some r \<Rightarrow>
          (case shp_list dc keys of
             Inl e \<Rightarrow> Inl e
           | Inr l \<Rightarrow> Inr (child_shp r # l)))"

text \<open>What \<^verbatim>\<open>make_parent\<close> returns: \<^verbatim>\<open>None\<close> on the two \<^verbatim>\<open>pass\<close> branches, \<^verbatim>\<open>self\<close> otherwise.\<close>

datatype returned = ReturnsNone | ReturnsSelf

text \<open>
  \<^verbatim>\<open>fcfun.fuseshplist\<close> and the \<^verbatim>\<open>cut\<close> of a shape belong to the geometry kernel and are
  parameters: each returns a shape or raises.
\<close>

definition make_parent ::
  "('shp list \<Rightarrow> pyerr + 'shp) \<Rightarrow> ('shp \<Rightarrow> 'shp \<Rightarrow> pyerr + 'shp) \<Rightarrow>
     'shp obj3d \<Rightarrow> pyname \<Rightarrow> pyerr + 'shp obj3d \<times> returned" where
  "make_parent fuseshplist cut' self name' =
     (if length (dict_child self) = 0 then Inr (self, ReturnsNone)
      else if length (dict_child_sum self) = 0 \<and> length (dict_child_res self) = 0
        then Inr (self, ReturnsNone)
      else
        (case shp_list (dict_child self) (map fst (dict_child_sum self)) of
           Inl e \<Rightarrow> Inl e
         | Inr shp_sum_list \<Rightarrow>
        (case shp_list (dict_child self) (map fst (dict_child_res self)) of
           Inl e \<Rightarrow> Inl e
         | Inr shp_res_list \<Rightarrow>
        (case fuseshplist shp_sum_list of
           Inl e \<Rightarrow> Inl e
         | Inr shp_sum \<Rightarrow>
        (case fuseshplist shp_res_list of
           Inl e \<Rightarrow> Inl e
         | Inr shp_res \<Rightarrow>
        (case cut' shp_sum shp_res of
           Inl e \<Rightarrow> Inl e
         | Inr s \<Rightarrow> Inr (self\<lparr>shp := Some s\<rparr>, ReturnsSelf)))))))"

section \<open>Notions used by the statements\<close>


text \<open>
  What a registration record shows to a reader in store \<open>h\<close>: the contents of the three
  maps it refers to, and its shape.
\<close>

definition record_view :: "heap \<Rightarrow> 'shp child_rec \<Rightarrow> imap \<times> imap \<times> imap \<times> 'shp" where
  "record_view h r =
     (cells h (child_d_o r), cells h (child_w_o r), cells h (child_h_o r), child_shp r)"

text \<open>The shapes that a child table records, in the order of the table.\<close>

definition recorded_shps :: "(pyname \<times> 'shp child_rec) list \<Rightarrow> 'shp list" where
  "recorded_shps tbl = map (\<lambda>kr. child_shp (snd kr)) tbl"

section \<open>Example frames\<close>

text \<open>
  A symbolic geometry kernel for the examples: a solid is a primitive, the fusion of a
  list of solids, or one solid cut by another.
\<close>

datatype solid = Prim nat | Fuse "solid list" | Cut solid solid

definition ex_fuse :: "solid list \<Rightarrow> pyerr + solid" where
  "ex_fuse l = Inr (Fuse l)"

definition ex_cut :: "solid \<Rightarrow> solid \<Rightarrow> pyerr + solid" where
  "ex_cut a b = Inr (Cut a b)"

text \<open>An object on which no attribute has been set yet, and the empty store.\<close>

definition blank :: "'shp obj3d" where
  "blank = \<lparr>d_o = 0, w_o = 0, h_o = 0, dict_child = [], dict_child_sum = [],
            dict_child_res = [], name = None, axis_h = V0, axis_d = V0, axis_w = V0,
            pos_o_adjust = V0, pos_h = None, pos_d = None, pos_w = None,
            d0_cen = None, w0_cen = None, h0_cen = None, pos = None, pos_o = None,
            shp = None\<rparr>"

definition heap0 :: heap where
  "heap0 = \<lparr>cells = (\<lambda>a. []), nxt = 0\<rparr>"

text \<open>
  A frame whose three maps define the keys 0, 1 and 2, with the same flag \<open>cen\<close> on its
  three axes.
\<close>

definition ex_heap :: heap where
  "ex_heap = \<lparr>cells = (\<lambda>a. [])
       (0 := [(0, Vector 5 0 0), (1, Vector (5/2) 0 0), (2, Vector 0 0 0)],
        1 := [(0, Vector 0 4 0), (1, Vector 0 2 0), (2, Vector 0 0 0)],
        2 := [(0, Vector 0 0 1), (1, Vector 0 0 (1/2)), (2, Vector 0 0 0)]),
     nxt = 3\<rparr>"

definition ex_frame :: "int \<Rightarrow> solid obj3d" where
  "ex_frame cen = blank\<lparr>d_o := 0, w_o := 1, h_o := 2, axis_d := VX, axis_w := VY, axis_h := VZ,
       d0_cen := Some cen, w0_cen := Some cen, h0_cen := Some cen,
       pos_d := Some 2, pos_w := Some 0, pos_h := Some (- 1), pos := Some (Vector 1 1 1)\<rparr>"

text \<open>
  Two children that share the three maps of \<open>ex_frame\<close> and differ in their shapes, a
  parent with no child, the records that registering the children stores, and two
  parents with children: a plate with a hole, and a parent on which the name \<open>a\<close> was
  registered first as additive (first child) and then as subtractive (second child).
\<close>

definition ex_child :: "solid obj3d" where
  "ex_child = (ex_frame 0)\<lparr>shp := Some (Prim 1)\<rparr>"

definition ex_child2 :: "solid obj3d" where
  "ex_child2 = (ex_frame 0)\<lparr>shp := Some (Prim 2)\<rparr>"

definition ex_parent :: "solid obj3d" where
  "ex_parent = blank\<lparr>d_o := 3, w_o := 4, h_o := 5\<rparr>"

definition ex_rec :: "solid child_rec" where
  "ex_rec = \<lparr>child_d_o = 0, child_w_o = 1, child_h_o = 2, child_shp = Prim 1\<rparr>"

definition ex_rec2 :: "solid child_rec" where
  "ex_rec2 = \<lparr>child_d_o = 0, child_w_o = 1, child_h_o = 2, child_shp = Prim 2\<rparr>"

definition ex_plate :: "solid obj3d" where
  "ex_plate = ex_parent\<lparr>dict_child := [(Some ''placa'', ex_rec), (Some ''hole'', ex_rec2)],
       dict_child_sum := [(Some ''placa'', ex_rec)], dict_child_res := [(Some ''hole'', ex_rec2)]\<rparr>"

definition ex_twice :: "solid obj3d" where
  "ex_twice = ex_parent\<lparr>dict_child := [(Some ''a'', ex_rec2)],
       dict_child_sum := [(Some ''a'', ex_rec)], dict_child_res := [(Some ''a'', ex_rec2)]\<rparr>"

lemmas ex_defs = ex_child_def ex_child2_def ex_parent_def ex_rec_def ex_rec2_def ex_plate_def
  ex_twice_def ex_frame_def blank_def ex_fuse_def ex_cut_def


section \<open>Resolution on a centered axis\<close>



section \<open>Undefined indices\<close>




section \<open>Mirror symmetry\<close>



section \<open>Registration of children\<close>

subsection \<open>Facts about the child tables\<close>

lemma update_not_Nil: "AList.update k v al \<noteq> []"
  by (cases al) auto

lemma add_child_keys:
  assumes "add_child p c t n = Inr p'"
    and "fst ` set (dict_child p) = fst ` set (dict_child_sum p) \<union> fst ` set (dict_child_res p)"
  shows "fst ` set (dict_child p') = fst ` set (dict_child_sum p') \<union> fst ` set (dict_child_res p')"
proof -
  from assms(1) obtain s where s: "shp c = Some s"
    by (auto simp: add_child_def split: option.splits)
  define r where "r = \<lparr>child_d_o = d_o c, child_w_o = w_o c, child_h_o = h_o c, child_shp = s\<rparr>"
  have dc: "dict_child p' = AList.update n r (dict_child p)"
    using assms(1) s by (auto simp: add_child_def Let_def r_def split: if_splits)
  show ?thesis
  proof (cases "t = 1")
    case True
    then have "dict_child_sum p' = AList.update n r (dict_child_sum p)"
      and "dict_child_res p' = dict_child_res p"
      using assms(1) s by (auto simp: add_child_def Let_def r_def)
    with dc assms(2) show ?thesis
      by (simp add: dom_update Un_assoc)
  next
    case False
    then have "dict_child_res p' = AList.update n r (dict_child_res p)"
      and "dict_child_sum p' = dict_child_sum p"
      using assms(1) s by (auto simp: add_child_def Let_def r_def)
    with dc assms(2) show ?thesis
      by (simp add: dom_update Un_left_commute)
  qed
qed

lemma add_child_not_Nil:
  assumes "add_child p c t n = Inr p'"
  shows "dict_child p' \<noteq> []"
  using assms by (auto simp: add_child_def Let_def update_not_Nil split: option.splits if_splits)

lemma add_children_keys:
  assumes "add_children p regs = Inr p'"
    and "fst ` set (dict_child p) = fst ` set (dict_child_sum p) \<union> fst ` set (dict_child_res p)"
  shows "fst ` set (dict_child p') = fst ` set (dict_child_sum p') \<union> fst ` set (dict_child_res p')"
  using assms
proof (induction regs arbitrary: p)
  case Nil
  then show ?case by simp
next
  case (Cons reg regs)
  obtain c t n where reg: "reg = (c, t, n)" by (cases reg)
  from Cons.prems(1) reg obtain p1 where
    p1: "add_child p c t n = Inr p1" and rest: "add_children p1 regs = Inr p'"
    by (auto split: sum.splits)
  from add_child_keys [OF p1 Cons.prems(2)] Cons.IH [OF rest] show ?case by simp
qed

lemma add_children_not_Nil:
  assumes "add_children p regs = Inr p'" and "regs \<noteq> [] \<or> dict_child p \<noteq> []"
  shows "dict_child p' \<noteq> []"
  using assms
proof (induction regs arbitrary: p)
  case Nil
  then show ?case by simp
next
  case (Cons reg regs)
  obtain c t n where reg: "reg = (c, t, n)" by (cases reg)
  from Cons.prems(1) reg obtain p1 where
    p1: "add_child p c t n = Inr p1" and rest: "add_children p1 regs = Inr p'"
    by (auto split: sum.splits)
  from add_child_not_Nil [OF p1] Cons.IH [OF rest] show ?case by simp
qed

lemma add_child_tables:
  assumes "add_child p c t n = Inr p'"
  shows "\<exists>r. dict_child p' = AList.update n r (dict_child p)
     \<and> (if t = 1
        then dict_child_sum p' = AList.update n r (dict_child_sum p)
           \<and> dict_child_res p' = dict_child_res p
        else dict_child_res p' = AList.update n r (dict_child_res p)
           \<and> dict_child_sum p' = dict_child_sum p)"
  using assms by (auto simp: add_child_def Let_def split: option.splits if_splits)

lemma add_child_distinct:
  assumes "add_child p c t n = Inr p'"
    and "distinct (map fst (dict_child_sum p))" and "distinct (map fst (dict_child_res p))"
  shows "distinct (map fst (dict_child_sum p')) \<and> distinct (map fst (dict_child_res p'))"
  using add_child_tables [OF assms(1)] assms(2,3)
  by (cases "t = 1") (auto simp: distinct_update)

lemma add_child_agree:
  assumes "add_child p c t n = Inr p'"
    and "\<And>k r. map_of (dict_child_sum p) k = Some r \<Longrightarrow> k \<notin> fst ` set (dict_child_res p) \<Longrightarrow>
           map_of (dict_child p) k = Some r"
    and "\<And>k r. map_of (dict_child_res p) k = Some r \<Longrightarrow> k \<notin> fst ` set (dict_child_sum p) \<Longrightarrow>
           map_of (dict_child p) k = Some r"
  shows "(\<forall>k r. map_of (dict_child_sum p') k = Some r \<longrightarrow> k \<notin> fst ` set (dict_child_res p') \<longrightarrow>
           map_of (dict_child p') k = Some r)
       \<and> (\<forall>k r. map_of (dict_child_res p') k = Some r \<longrightarrow> k \<notin> fst ` set (dict_child_sum p') \<longrightarrow>
           map_of (dict_child p') k = Some r)"
proof (cases "t = 1")
  case True
  with add_child_tables [OF assms(1)] obtain r where
    "dict_child p' = AList.update n r (dict_child p)"
    "dict_child_sum p' = AList.update n r (dict_child_sum p)"
    "dict_child_res p' = dict_child_res p"
    by auto
  with assms(2,3) show ?thesis
    by (auto simp: update_conv' dom_update split: if_splits)
next
  case False
  with add_child_tables [OF assms(1)] obtain r where
    "dict_child p' = AList.update n r (dict_child p)"
    "dict_child_res p' = AList.update n r (dict_child_res p)"
    "dict_child_sum p' = dict_child_sum p"
    by auto
  with assms(2,3) show ?thesis
    by (auto simp: update_conv' dom_update split: if_splits)
qed

lemma add_children_agree:
  assumes "add_children p regs = Inr p'"
    and "distinct (map fst (dict_child_sum p))" and "distinct (map fst (dict_child_res p))"
    and "\<forall>k r. map_of (dict_child_sum p) k = Some r \<longrightarrow> k \<notin> fst ` set (dict_child_res p) \<longrightarrow>
           map_of (dict_child p) k = Some r"
    and "\<forall>k r. map_of (dict_child_res p) k = Some r \<longrightarrow> k \<notin> fst ` set (dict_child_sum p) \<longrightarrow>
           map_of (dict_child p) k = Some r"
  shows "distinct (map fst (dict_child_sum p')) \<and> distinct (map fst (dict_child_res p'))
       \<and> (\<forall>k r. map_of (dict_child_sum p') k = Some r \<longrightarrow> k \<notin> fst ` set (dict_child_res p') \<longrightarrow>
           map_of (dict_child p') k = Some r)
       \<and> (\<forall>k r. map_of (dict_child_res p') k = Some r \<longrightarrow> k \<notin> fst ` set (dict_child_sum p') \<longrightarrow>
           map_of (dict_child p') k = Some r)"
  using assms
proof (induction regs arbitrary: p)
  case Nil
  then show ?case by simp
next
  case (Cons reg regs)
  obtain c t n where reg: "reg = (c, t, n)" by (cases reg)
  from Cons.prems(1) reg obtain p1 where
    p1: "add_child p c t n = Inr p1" and rest: "add_children p1 regs = Inr p'"
    by (auto split: sum.splits)
  have d: "distinct (map fst (dict_child_sum p1)) \<and> distinct (map fst (dict_child_res p1))"
    by (rule add_child_distinct [OF p1 Cons.prems(2,3)])
  have a: "(\<forall>k r. map_of (dict_child_sum p1) k = Some r \<longrightarrow> k \<notin> fst ` set (dict_child_res p1) \<longrightarrow>
           map_of (dict_child p1) k = Some r)
       \<and> (\<forall>k r. map_of (dict_child_res p1) k = Some r \<longrightarrow> k \<notin> fst ` set (dict_child_sum p1) \<longrightarrow>
           map_of (dict_child p1) k = Some r)"
    by (rule add_child_agree [OF p1]) (use Cons.prems(4,5) in blast)+
  from d a show ?case
    by (intro Cons.IH [OF rest]) simp_all
qed

lemma shp_list_recorded:
  assumes "\<And>k r. (k, r) \<in> set tbl \<Longrightarrow> map_of dc k = Some r"
  shows "shp_list dc (map fst tbl) = Inr (recorded_shps tbl)"
  using assms
proof (induction tbl)
  case Nil
  then show ?case by (simp add: recorded_shps_def)
next
  case (Cons kr tbl)
  obtain k r where kr: "kr = (k, r)" by (cases kr)
  have "map_of dc k = Some r" using Cons.prems kr by simp
  moreover have "shp_list dc (map fst tbl) = Inr (recorded_shps tbl)"
    by (rule Cons.IH) (use Cons.prems in simp)
  ultimately show ?case by (simp add: kr recorded_shps_def)
qed

subsection \<open>Registering a name again\<close>



subsection \<open>The keys of the three tables\<close>

text \<open>
  C10. From a parent whose three child tables are empty, after every sequence of
  \<^verbatim>\<open>add_child\<close> calls the names of the full table are those of the additive sub-table
  together with those of the subtractive sub-table. The sub-tables need not be disjoint:
  registering a name first as additive and then as subtractive leaves it in both, and
  \<^verbatim>\<open>make_parent\<close> then takes the shape of the child registered last both as the only
  shape to fuse and as the only shape to cut away.
\<close>

theorem child_tables_keys:
  assumes "dict_child p0 = []" and "dict_child_sum p0 = []" and "dict_child_res p0 = []"
  shows "(\<forall>regs p. add_children p0 regs = Inr p \<longrightarrow>
            set (map fst (dict_child p)) =
              set (map fst (dict_child_sum p)) \<union> set (map fst (dict_child_res p)))
       \<and> (\<forall>c1 c2 s1 s2 n. shp c1 = Some s1 \<longrightarrow> shp c2 = Some s2 \<longrightarrow>
            (\<exists>p. add_children p0 [(c1, 1, n), (c2, 0, n)] = Inr p
               \<and> n \<in> set (map fst (dict_child_sum p)) \<and> n \<in> set (map fst (dict_child_res p))
               \<and> shp_list (dict_child p) (map fst (dict_child_sum p)) = Inr [s2]
               \<and> shp_list (dict_child p) (map fst (dict_child_res p)) = Inr [s2]
               \<and> (\<forall>fuseshplist cut' u r nm. fuseshplist [s2] = Inr u \<longrightarrow> cut' u u = Inr r \<longrightarrow>
                     make_parent fuseshplist cut' p nm = Inr (p\<lparr>shp := Some r\<rparr>, ReturnsSelf))))"
proof (intro conjI allI impI)
  fix regs p
  assume "add_children p0 regs = Inr p"
  from add_children_keys [OF this] assms
  show "set (map fst (dict_child p)) =
          set (map fst (dict_child_sum p)) \<union> set (map fst (dict_child_res p))"
    by simp
next
  fix c1 c2 :: "'a obj3d" and s1 s2 n
  assume "shp c1 = Some s1" and "shp c2 = Some s2"
  then show "\<exists>p. add_children p0 [(c1, 1, n), (c2, 0, n)] = Inr p
               \<and> n \<in> set (map fst (dict_child_sum p)) \<and> n \<in> set (map fst (dict_child_res p))
               \<and> shp_list (dict_child p) (map fst (dict_child_sum p)) = Inr [s2]
               \<and> shp_list (dict_child p) (map fst (dict_child_res p)) = Inr [s2]
               \<and> (\<forall>fuseshplist cut' u r nm. fuseshplist [s2] = Inr u \<longrightarrow> cut' u u = Inr r \<longrightarrow>
                     make_parent fuseshplist cut' p nm = Inr (p\<lparr>shp := Some r\<rparr>, ReturnsSelf))"
    using assms by (simp add: add_child_def make_parent_def Let_def)
qed

theorem child_tables_keys_witness:
  "add_children ex_parent [(ex_child, 1, Some ''a''), (ex_child2, 0, Some ''a'')] = Inr ex_twice
   \<and> set (map fst (dict_child ex_twice)) =
       set (map fst (dict_child_sum ex_twice)) \<union> set (map fst (dict_child_res ex_twice))
   \<and> make_parent ex_fuse ex_cut ex_twice None =
       Inr (ex_twice\<lparr>shp := Some (Cut (Fuse [Prim 2]) (Fuse [Prim 2]))\<rparr>, ReturnsSelf)"
proof -
  have e: "dict_child ex_parent = []" "dict_child_sum ex_parent = []" "dict_child_res ex_parent = []"
    by (simp_all add: ex_defs)
  have reg: "add_children ex_parent [(ex_child, 1, Some ''a''), (ex_child2, 0, Some ''a'')]
      = Inr ex_twice"
    by (simp add: ex_defs add_child_def Let_def)
  have keys: "set (map fst (dict_child ex_twice)) =
       set (map fst (dict_child_sum ex_twice)) \<union> set (map fst (dict_child_res ex_twice))"
    by (rule child_tables_keys [OF e, THEN conjunct1, rule_format, OF reg])
  have c: "shp ex_child = Some (Prim 1)" "shp ex_child2 = Some (Prim 2)"
    by (simp_all add: ex_defs)
  from child_tables_keys [OF e, THEN conjunct2, rule_format, OF c, of "Some ''a''"]
  obtain p where p: "add_children ex_parent [(ex_child, 1, Some ''a''), (ex_child2, 0, Some ''a'')]
        = Inr p"
    and mp: "\<And>fuseshplist cut' u r nm. fuseshplist [Prim 2] = Inr u \<Longrightarrow> cut' u u = Inr r \<Longrightarrow>
          make_parent fuseshplist cut' p nm = Inr (p\<lparr>shp := Some r\<rparr>, ReturnsSelf)"
    by blast
  from p reg have "p = ex_twice" by simp
  with mp [of ex_fuse "Fuse [Prim 2]" ex_cut "Cut (Fuse [Prim 2]) (Fuse [Prim 2])" None]
  have "make_parent ex_fuse ex_cut ex_twice None =
       Inr (ex_twice\<lparr>shp := Some (Cut (Fuse [Prim 2]) (Fuse [Prim 2]))\<rparr>, ReturnsSelf)"
    by (simp add: ex_fuse_def ex_cut_def)
  with reg keys show ?thesis by (intro conjI)
qed

section \<open>Synthesis of the parent\<close>

text \<open>
  C7. On a parent with no registered child, \<^verbatim>\<open>make_parent\<close> raises nothing and leaves
  the parent, its shape included, as it was; it returns \<^verbatim>\<open>None\<close>.
\<close>

theorem make_parent_no_children:
  "dict_child self = [] \<Longrightarrow> make_parent fuseshplist cut' self nm = Inr (self, ReturnsNone)"
  by (simp add: make_parent_def)

theorem make_parent_no_children_witness:
  "dict_child ex_parent = []
   \<and> make_parent ex_fuse ex_cut ex_parent None = Inr (ex_parent, ReturnsNone)"
  using make_parent_no_children [of ex_parent ex_fuse ex_cut None]
  by (simp add: ex_defs)

text \<open>
  C4, as the claim states it, fails: on a parent where the name \<open>a\<close> was registered as
  additive with the first child and then as subtractive with the second, the additive
  sub-table records the first shape and the subtractive one the second, but
  \<^verbatim>\<open>make_parent\<close> does not set the fusion of the first cut by the fusion of the second: it
  reads both shapes from the full table, which holds the second child.
\<close>

theorem make_parent_other_shape:
  "add_children ex_parent [(ex_child, 1, Some ''a''), (ex_child2, 0, Some ''a'')] = Inr ex_twice
   \<and> recorded_shps (dict_child_sum ex_twice) = [Prim 1]
   \<and> recorded_shps (dict_child_res ex_twice) = [Prim 2]
   \<and> ex_fuse [Prim 1] = Inr (Fuse [Prim 1]) \<and> ex_fuse [Prim 2] = Inr (Fuse [Prim 2])
   \<and> ex_cut (Fuse [Prim 1]) (Fuse [Prim 2]) = Inr (Cut (Fuse [Prim 1]) (Fuse [Prim 2]))
   \<and> make_parent ex_fuse ex_cut ex_twice None \<noteq>
       Inr (ex_twice\<lparr>shp := Some (Cut (Fuse [Prim 1]) (Fuse [Prim 2]))\<rparr>, ReturnsSelf)
   \<and> make_parent ex_fuse ex_cut ex_twice None =
       Inr (ex_twice\<lparr>shp := Some (Cut (Fuse [Prim 2]) (Fuse [Prim 2]))\<rparr>, ReturnsSelf)"
  by (simp add: ex_defs add_child_def make_parent_def Let_def recorded_shps_def)

text \<open>
  C4, amended. On a parent reached by at least one \<^verbatim>\<open>add_child\<close> call from empty child
  tables (so that it has a child, and one of the sub-tables is not empty) and whose
  additive and subtractive sub-tables share no name, \<^verbatim>\<open>make_parent\<close> raises no
  \<^verbatim>\<open>KeyError\<close> and sets the shape of the parent to the fusion of the shapes recorded in the
  additive sub-table cut by the fusion of the shapes recorded in the subtractive
  sub-table, whenever the kernel returns these three shapes.
\<close>

theorem make_parent_shape:
  assumes "dict_child p0 = []" and "dict_child_sum p0 = []" and "dict_child_res p0 = []"
    and "add_children p0 regs = Inr p" and "regs \<noteq> []"
    and "set (map fst (dict_child_sum p)) \<inter> set (map fst (dict_child_res p)) = {}"
    and "fuseshplist (recorded_shps (dict_child_sum p)) = Inr u"
    and "fuseshplist (recorded_shps (dict_child_res p)) = Inr v"
    and "cut' u v = Inr r"
  shows "make_parent fuseshplist cut' p nm = Inr (p\<lparr>shp := Some r\<rparr>, ReturnsSelf)"
proof -
  have keys: "fst ` set (dict_child p) = fst ` set (dict_child_sum p) \<union> fst ` set (dict_child_res p)"
    using add_children_keys [OF assms(4)] assms(1-3) by simp
  have ne: "dict_child p \<noteq> []"
    using add_children_not_Nil [OF assms(4)] assms(5) by simp
  then have "fst ` set (dict_child p) \<noteq> {}" by simp
  with keys have sub: "dict_child_sum p \<noteq> [] \<or> dict_child_res p \<noteq> []" by auto
  have inv: "distinct (map fst (dict_child_sum p)) \<and> distinct (map fst (dict_child_res p))
       \<and> (\<forall>k r. map_of (dict_child_sum p) k = Some r \<longrightarrow> k \<notin> fst ` set (dict_child_res p) \<longrightarrow>
           map_of (dict_child p) k = Some r)
       \<and> (\<forall>k r. map_of (dict_child_res p) k = Some r \<longrightarrow> k \<notin> fst ` set (dict_child_sum p) \<longrightarrow>
           map_of (dict_child p) k = Some r)"
    by (rule add_children_agree [OF assms(4)]) (simp_all add: assms(1-3))
  have s: "shp_list (dict_child p) (map fst (dict_child_sum p)) =
            Inr (recorded_shps (dict_child_sum p))"
  proof (rule shp_list_recorded)
    fix k r assume kr: "(k, r) \<in> set (dict_child_sum p)"
    with inv have "map_of (dict_child_sum p) k = Some r" by simp
    moreover from kr assms(6) have "k \<notin> fst ` set (dict_child_res p)" by force
    ultimately show "map_of (dict_child p) k = Some r" using inv by blast
  qed
  have t: "shp_list (dict_child p) (map fst (dict_child_res p)) =
            Inr (recorded_shps (dict_child_res p))"
  proof (rule shp_list_recorded)
    fix k r assume kr: "(k, r) \<in> set (dict_child_res p)"
    with inv have "map_of (dict_child_res p) k = Some r" by simp
    moreover from kr assms(6) have "k \<notin> fst ` set (dict_child_sum p)" by force
    ultimately show "map_of (dict_child p) k = Some r" using inv by blast
  qed
  from ne sub show ?thesis
    by (auto simp: make_parent_def s t assms(7-9))
qed

theorem make_parent_shape_witness:
  "add_children ex_parent [(ex_child, 1, Some ''placa''), (ex_child2, 0, Some ''hole'')] = Inr ex_plate
   \<and> set (map fst (dict_child_sum ex_plate)) \<inter> set (map fst (dict_child_res ex_plate)) = {}
   \<and> recorded_shps (dict_child_sum ex_plate) = [Prim 1]
   \<and> recorded_shps (dict_child_res ex_plate) = [Prim 2]
   \<and> make_parent ex_fuse ex_cut ex_plate (Some ''placa perforada'') =
       Inr (ex_plate\<lparr>shp := Some (Cut (Fuse [Prim 1]) (Fuse [Prim 2]))\<rparr>, ReturnsSelf)"
proof -
  have reg: "add_children ex_parent [(ex_child, 1, Some ''placa''), (ex_child2, 0, Some ''hole'')]
      = Inr ex_plate"
    by (simp add: ex_defs add_child_def Let_def)
  have dis: "set (map fst (dict_child_sum ex_plate)) \<inter> set (map fst (dict_child_res ex_plate)) = {}"
    by (simp add: ex_defs)
  have rs: "recorded_shps (dict_child_sum ex_plate) = [Prim 1]"
    "recorded_shps (dict_child_res ex_plate) = [Prim 2]"
    by (simp_all add: ex_defs recorded_shps_def)
  have "make_parent ex_fuse ex_cut ex_plate (Some ''placa perforada'') =
       Inr (ex_plate\<lparr>shp := Some (Cut (Fuse [Prim 1]) (Fuse [Prim 2]))\<rparr>, ReturnsSelf)"
    by (rule make_parent_shape [OF _ _ _ reg _ dis])
      (simp_all add: rs ex_fuse_def ex_cut_def, simp_all add: ex_defs)
  with reg dis rs show ?thesis by (intro conjI)
qed

section \<open>What a registration stores\<close>

text \<open>
  C3, as the claim states it, fails: after the child has been registered, the statement
  \<^verbatim>\<open>child.d_o[3] = VX\<close> changes what the parent's record of the child shows.
\<close>

theorem registration_record_sees_later_write:
  "add_child ex_parent ex_child 1 (Some ''hole'') =
     Inr (ex_parent\<lparr>dict_child := [(Some ''hole'', ex_rec)],
                    dict_child_sum := [(Some ''hole'', ex_rec)]\<rparr>)
   \<and> record_view (setitem ex_heap (d_o ex_child) 3 VX) ex_rec \<noteq> record_view ex_heap ex_rec"
  by (simp add: add_child_def Let_def ex_defs record_view_def setitem_def ex_heap_def)

text \<open>
  C3, amended. The record that \<^verbatim>\<open>add_child\<close> stores under the child's name holds the
  child's shape and references to the child's three maps, not copies of them. A later
  assignment to a key of one of the child's maps is therefore seen through the parent's
  record, and an assignment to any other map leaves what the record shows unchanged.
\<close>

theorem add_child_stores_references:
  assumes "add_child self child child_sum child_name = Inr self'"
  shows "\<exists>r. map_of (dict_child self') child_name = Some r
     \<and> child_d_o r = d_o child \<and> child_w_o r = w_o child \<and> child_h_o r = h_o child
     \<and> shp child = Some (child_shp r)
     \<and> (\<forall>h k v. getitem (setitem h (d_o child) k v) (child_d_o r) k = Some v
           \<and> getitem (setitem h (w_o child) k v) (child_w_o r) k = Some v
           \<and> getitem (setitem h (h_o child) k v) (child_h_o r) k = Some v)
     \<and> (\<forall>h a k v. a \<noteq> d_o child \<longrightarrow> a \<noteq> w_o child \<longrightarrow> a \<noteq> h_o child \<longrightarrow>
           record_view (setitem h a k v) r = record_view h r)"
proof -
  from assms obtain s where s: "shp child = Some s"
    by (auto simp: add_child_def split: option.splits)
  define r where "r = \<lparr>child_d_o = d_o child, child_w_o = w_o child, child_h_o = h_o child, child_shp = s\<rparr>"
  have "dict_child self' = AList.update child_name r (dict_child self)"
    using assms s by (auto simp: add_child_def Let_def r_def split: if_splits)
  then have "map_of (dict_child self') child_name = Some r"
    by (simp add: update_conv')
  moreover have "child_d_o r = d_o child" "child_w_o r = w_o child" "child_h_o r = h_o child"
    "shp child = Some (child_shp r)"
    by (simp_all add: r_def s)
  moreover have "getitem (setitem h a k v) a k = Some v" for h a k v
    by (simp add: getitem_def setitem_def update_conv')
  moreover have "a \<noteq> d_o child \<Longrightarrow> a \<noteq> w_o child \<Longrightarrow> a \<noteq> h_o child \<Longrightarrow>
      record_view (setitem h a k v) r = record_view h r" for h a k v
    by (simp add: record_view_def setitem_def r_def)
  ultimately show ?thesis by (intro exI [of _ r]) simp
qed

theorem add_child_stores_references_witness:
  "add_child ex_parent ex_child 1 (Some ''hole'') =
     Inr (ex_parent\<lparr>dict_child := [(Some ''hole'', ex_rec)],
                    dict_child_sum := [(Some ''hole'', ex_rec)]\<rparr>)
   \<and> getitem (setitem ex_heap (d_o ex_child) 3 VX) (child_d_o ex_rec) 3 = Some VX
   \<and> record_view (setitem ex_heap 7 3 VX) ex_rec = record_view ex_heap ex_rec"
proof -
  have reg: "add_child ex_parent ex_child 1 (Some ''hole'') =
     Inr (ex_parent\<lparr>dict_child := [(Some ''hole'', ex_rec)],
                    dict_child_sum := [(Some ''hole'', ex_rec)]\<rparr>)"
    by (simp add: add_child_def Let_def ex_defs)
  from add_child_stores_references [OF reg]
  obtain r where r: "map_of (dict_child (ex_parent\<lparr>dict_child := [(Some ''hole'', ex_rec)],
                    dict_child_sum := [(Some ''hole'', ex_rec)]\<rparr>)) (Some ''hole'') = Some r"
    and wr: "\<And>h k v. getitem (setitem h (d_o ex_child) k v) (child_d_o r) k = Some v"
    and fr: "\<And>h a k v. a \<noteq> d_o ex_child \<Longrightarrow> a \<noteq> w_o ex_child \<Longrightarrow> a \<noteq> h_o ex_child \<Longrightarrow>
           record_view (setitem h a k v) r = record_view h r"
    by blast
  from r have "r = ex_rec" by simp
  with wr [of ex_heap 3 VX] fr [of 7 ex_heap 3 VX] reg show ?thesis
    by (simp add: ex_defs)
qed

section \<open>The origin\<close>





section \<open>Construction with a zero axis\<close>

text \<open>
  C8, as the claim states it, fails: constructed with the zero vector as depth axis, and
  with \<^verbatim>\<open>scaleTo\<close> as described, \<^verbatim>\<open>Obj3D.__init__\<close> raises nothing and returns a frame whose
  depth axis is the zero vector.
\<close>

theorem Obj3D_init_zero_axis_accepted:
  "Length V0 = 0 \<and>
   Obj3D_init scaleTo heap0 (blank :: solid obj3d) (Some V0) (Some VY) (Some VZ) (Some ''p'') =
     Inr (\<lparr>cells = (\<lambda>a. []), nxt = 3\<rparr>,
          blank\<lparr>d_o := 0, w_o := 1, h_o := 2, name := Some ''p'',
                axis_h := VZ, axis_d := V0, axis_w := VY\<rparr>)"
  by (simp add: Obj3D_init_def init_axis_h_def init_axis_d_def init_axis_w_def scaleTo_def
      new_dict_def heap0_def blank_def Length_def V0_def VY_def VZ_def fun_eq_iff)

text \<open>
  C8, amended. \<^verbatim>\<open>Obj3D.__init__\<close> makes no test on the length of an axis. Whenever
  \<^verbatim>\<open>scaleTo\<close> returns a vector for each axis handed to it, the construction succeeds: the
  three maps are created first, each given axis is stored as \<^verbatim>\<open>scaleTo(axis, 1)\<close> returned
  it (a zero axis included), each axis not given is \<open>V0\<close>, and \<^verbatim>\<open>pos_o_adjust\<close> is \<open>V0\<close>.
\<close>

theorem Obj3D_init_keeps_scaleTo_result:
  fixes self :: "'shp obj3d"
  shows "\<exists>h' self'. Obj3D_init (\<lambda>u l. Inr (nrm u l)) h self ad aw ah nm = Inr (h', self')
     \<and> axis_d self' = (case ad of None \<Rightarrow> V0 | Some a \<Rightarrow> nrm a 1)
     \<and> axis_w self' = (case aw of None \<Rightarrow> V0 | Some a \<Rightarrow> nrm a 1)
     \<and> axis_h self' = (case ah of None \<Rightarrow> V0 | Some a \<Rightarrow> nrm a 1)
     \<and> d_o self' = nxt h \<and> w_o self' = Suc (nxt h) \<and> h_o self' = Suc (Suc (nxt h))
     \<and> pos_o_adjust self' = V0"
  by (cases ad; cases aw; cases ah)
    (simp_all add: Obj3D_init_def init_axis_h_def init_axis_d_def init_axis_w_def new_dict_def)

end
